theory Spec2Isabelle
  imports Main "HOL-Library.Word"
begin

section \<open>JavaScript strings\<close>

text \<open>
  A JavaScript string is a sequence of 16-bit code units; \<open>length\<close>, \<open>split\<close>,
  \<open>trim\<close> and \<open>substring\<close> all work on code units. The ASCII literals of the
  script are written \<open>str ''...''\<close>.
\<close>

type_synonym code_unit = "16 word"
type_synonym jsstring = "code_unit list"

definition str :: "string \<Rightarrow> jsstring" where
  "str s = map of_char s"

text \<open>
  \<open>s.split(sep)\<close> for a separator of one code unit: the pieces between the
  occurrences of the separator, all of them, in order. The result is never empty:
  \<open>"".split(";")\<close> is \<open>[""]\<close>. (The last case alternative is unreachable and only
  makes the definition total.)
\<close>

fun split :: "code_unit \<Rightarrow> jsstring \<Rightarrow> jsstring list" where
  "split sep [] = [[]]"
| "split sep (c # cs) =
     (if c = sep then [] # split sep cs
      else (case split sep cs of
              piece # pieces \<Rightarrow> (c # piece) # pieces
            | [] \<Rightarrow> [[c]]))"

text \<open>
  The code units \<open>String.prototype.trim\<close> removes: ECMAScript's WhiteSpace (TAB, VT,
  FF, SP, NBSP, ZWNBSP and the category Zs) and LineTerminator (LF, CR, LS, PS).
\<close>

definition is_white_space :: "code_unit \<Rightarrow> bool" where
  "is_white_space c \<longleftrightarrow>
     c \<in> {0x0009, 0x000A, 0x000B, 0x000C, 0x000D, 0x0020, 0x00A0, 0x1680,
          0x2000, 0x2001, 0x2002, 0x2003, 0x2004, 0x2005, 0x2006, 0x2007,
          0x2008, 0x2009, 0x200A, 0x2028, 0x2029, 0x202F, 0x205F, 0x3000, 0xFEFF}"

definition trim :: "jsstring \<Rightarrow> jsstring" where
  "trim s = rev (dropWhile is_white_space (rev (dropWhile is_white_space s)))"

text \<open>\<open>s.substring(0, n)\<close>: the first \<open>n\<close> code units, or all of \<open>s\<close> if it is shorter.\<close>

definition substring0 :: "jsstring \<Rightarrow> nat \<Rightarrow> jsstring" where
  "substring0 s n = take n s"

text \<open>
  Array destructuring \<open>const [name, value] = parts\<close>: the first two elements; an
  element the array does not have is \<open>undefined\<close>, here \<open>None\<close>.
\<close>

definition element :: "'a list \<Rightarrow> nat \<Rightarrow> 'a option" where
  "element xs i = (if i < length xs then Some (xs ! i) else None)"

definition destructure :: "jsstring list \<Rightarrow> jsstring option \<times> jsstring option" where
  "destructure parts = (element parts 0, element parts 1)"

text \<open>Line 29 (142): \<open>document.cookie.split(";")\<close>.\<close>

definition cookies :: "jsstring \<Rightarrow> jsstring list" where
  "cookies document_cookie = split 0x3B document_cookie"

text \<open>Line 31 (144): \<open>const [name, value] = cookie.trim().split("=")\<close>.\<close>

definition name_value :: "jsstring \<Rightarrow> jsstring option \<times> jsstring option" where
  "name_value cookie = destructure (split 0x3D (trim cookie))"

section \<open>The \<open>tokens\<close> object and \<open>JSON.stringify\<close>\<close>

text \<open>
  \<open>tokens\<close> is a plain object whose properties are listed by \<open>JSON.stringify\<close> in the
  order of their first assignment; assigning again keeps the position. Every value the
  script stores in an object that survives is a string (see \<open>callback_strict\<close> for
  the one place where \<open>undefined\<close> is assigned).
\<close>

type_synonym object = "(jsstring \<times> jsstring) list"

fun put :: "object \<Rightarrow> jsstring \<Rightarrow> jsstring \<Rightarrow> object" where
  "put [] k v = [(k, v)]"
| "put ((k', v') # ps) k v = (if k' = k then (k, v) # ps else (k', v') # put ps k v)"

text \<open>Reading a property: \<open>None\<close> is \<open>undefined\<close>, the value of a property never set.\<close>

definition get :: "object \<Rightarrow> jsstring \<Rightarrow> jsstring option" where
  "get obj k = map_of obj k"

text \<open>\<open>!x\<close> for \<open>x\<close> a string or \<open>undefined\<close>: true for \<open>undefined\<close> and for \<open>""\<close>.\<close>

definition js_not :: "jsstring option \<Rightarrow> bool" where
  "js_not x = (case x of None \<Rightarrow> True | Some s \<Rightarrow> s = [])"

text \<open>
  \<open>QuoteJSONString\<close>: the string is read as code points (a leading surrogate followed
  by a trailing one is one code point and is copied); the quotation mark, the backslash
  and the control characters are escaped, and so is a surrogate on its own.
\<close>

definition hex_digit :: "nat \<Rightarrow> code_unit" where
  "hex_digit n = str ''0123456789abcdef'' ! (n mod 16)"

definition unicode_escape :: "code_unit \<Rightarrow> jsstring" where
  "unicode_escape c =
     [0x5C, 0x75, hex_digit (unat c div 4096), hex_digit (unat c div 256),
      hex_digit (unat c div 16), hex_digit (unat c)]"

definition is_leading_surrogate :: "code_unit \<Rightarrow> bool" where
  "is_leading_surrogate c \<longleftrightarrow> 0xD800 \<le> c \<and> c \<le> 0xDBFF"

definition is_trailing_surrogate :: "code_unit \<Rightarrow> bool" where
  "is_trailing_surrogate c \<longleftrightarrow> 0xDC00 \<le> c \<and> c \<le> 0xDFFF"

definition quote_code_point :: "code_unit \<Rightarrow> jsstring" where
  "quote_code_point c =
     (if c = 0x08 then [0x5C, 0x62]
      else if c = 0x09 then [0x5C, 0x74]
      else if c = 0x0A then [0x5C, 0x6E]
      else if c = 0x0C then [0x5C, 0x66]
      else if c = 0x0D then [0x5C, 0x72]
      else if c = 0x22 then [0x5C, 0x22]
      else if c = 0x5C then [0x5C, 0x5C]
      else if c < 0x20 \<or> is_leading_surrogate c \<or> is_trailing_surrogate c
        then unicode_escape c
      else [c])"

fun quote_code_points :: "jsstring \<Rightarrow> jsstring" where
  "quote_code_points [] = []"
| "quote_code_points [c] = quote_code_point c"
| "quote_code_points (c # d # cs) =
     (if is_leading_surrogate c \<and> is_trailing_surrogate d
      then c # d # quote_code_points cs
      else quote_code_point c @ quote_code_points (d # cs))"

definition QuoteJSONString :: "jsstring \<Rightarrow> jsstring" where
  "QuoteJSONString s = [0x22] @ quote_code_points s @ [0x22]"

fun join :: "jsstring \<Rightarrow> jsstring list \<Rightarrow> jsstring" where
  "join sep [] = []"
| "join sep [x] = x"
| "join sep (x # y # ys) = x @ sep @ join sep (y # ys)"

text \<open>
  \<open>JSON.stringify(tokens, null, 2)\<close> on an object of string properties: one member a
  line, indented by two spaces, \<open>": "\<close> between key and value, \<open>{}\<close> for no member.
\<close>

definition JSON_member :: "jsstring \<times> jsstring \<Rightarrow> jsstring" where
  "JSON_member p = str ''  '' @ QuoteJSONString (fst p) @ str '': '' @ QuoteJSONString (snd p)"

definition JSON_stringify :: "object \<Rightarrow> jsstring" where
  "JSON_stringify obj =
     (if obj = [] then str ''{}''
      else str ''{'' @ [0x0A] @ join (str '','' @ [0x0A]) (map JSON_member obj)
             @ [0x0A] @ str ''}'')"

section \<open>What a run of the script does\<close>

text \<open>
  The script returns nothing; all it does is seen in the browser: lines on the console,
  the click on the download link, the write to the clipboard. A run is the list of these
  events in the order they happen. Each fixed console text has a name, given with the
  line of the strict script (and of the tolerant one) that prints it. Lines 77 to 86
  (178 to 187), which wrap the JSON text in a blob and click a link to it that has the
  \<open>download\<close> attribute \<open>config.json\<close>, are the one event \<open>Download\<close>; the browser
  is taken to carry them out without an exception. The one exception the script itself
  can raise is the TypeError of calling a method of \<open>undefined\<close>.
\<close>

datatype exn = TypeError

datatype message =
    Banner                        \<comment> \<open>20 (133)\<close>
  | Ruler                         \<comment> \<open>21 (134)\<close>
  | Found_ct0 jsstring            \<comment> \<open>36 (149), with the second argument\<close>
  | Found_auth_token jsstring     \<comment> \<open>40, with the second argument\<close>
  | Found_bearer_token            \<comment> \<open>48\<close>
  | Using_default_bearer_token    \<comment> \<open>(157)\<close>
  | Could_not_find_ct0            \<comment> \<open>52 (161)\<close>
  | Could_not_find_auth_token     \<comment> \<open>59\<close>
  | Make_sure_logged_in           \<comment> \<open>53, 60 (162)\<close>
  | Try_refreshing                \<comment> \<open>54, 61 (163)\<close>
  | Successfully_extracted nat    \<comment> \<open>65 (167), with \<open>foundTokens\<close>\<close>
  | Tick_bearer_token             \<comment> \<open>66 (168)\<close>
  | Tick_csrf_token               \<comment> \<open>67 (169)\<close>
  | Tick_ct0                      \<comment> \<open>68 (170)\<close>
  | Tick_auth_token               \<comment> \<open>69\<close>
  | Generated_config              \<comment> \<open>73 (174)\<close>
  | Text jsstring                 \<comment> \<open>74 (175), the JSON text\<close>
  | Downloaded                    \<comment> \<open>88 (189)\<close>
  | Next_steps                    \<comment> \<open>89 (190)\<close>
  | Step_1                        \<comment> \<open>90 (191)\<close>
  | Step_2                        \<comment> \<open>91 (192)\<close>
  | Step_3                        \<comment> \<open>92 (193)\<close>
  | Copied_to_clipboard           \<comment> \<open>99 (200)\<close>
  | Could_not_copy                \<comment> \<open>102 (203)\<close>
  | Error_extracting exn          \<comment> \<open>106 (207), with the error caught\<close>
  | Troubleshooting               \<comment> \<open>107 (208)\<close>
  | Trouble_1                     \<comment> \<open>108 (209)\<close>
  | Trouble_2                     \<comment> \<open>109 (210)\<close>
  | Trouble_3                     \<comment> \<open>110 (211)\<close>
  | Trouble_4                     \<comment> \<open>111-113 (212-214)\<close>

datatype event =
    Console_log message
  | Console_error message
  | Download jsstring jsstring    \<comment> \<open>\<open>a.click()\<close>: the file name and the content of the blob\<close>
  | Clipboard_writeText jsstring

text \<open>
  The clipboard is given by the browser: \<open>navigator.clipboard.writeText\<close> may be
  missing, and the promise it returns is fulfilled, rejected or left pending. (A
  promise-returning operation reports its failures by rejecting, not by throwing.)
\<close>

datatype promise = Fulfilled | Rejected | Pending

datatype clipboard = No_clipboard | Clipboard promise

record locals =
  tokens :: object
  foundTokens :: nat

section \<open>The strict script (the first one, which wants \<open>auth_token\<close>)\<close>

definition bearer_token :: jsstring where
  "bearer_token = str ''AAAAAAAAAAAAAAAAAAAAAMLheAAAAAAA0%2BuSeid%2BULvsea4JtiGRiSDyJug%3D''"

text \<open>
  Lines 30 to 42, the function given to \<open>forEach\<close>. It returns what it printed, and the
  locals or the exception it threw. When \<open>value\<close> is \<open>undefined\<close> (the cookie has no
  \<open>=\<close>), the script assigns \<open>undefined\<close> to the properties and then throws a TypeError
  from \<open>value.substring\<close>, before \<open>console.log\<close> is called; \<open>tokens\<close> is not used again.
\<close>

definition callback_strict :: "jsstring \<Rightarrow> locals \<Rightarrow> event list \<times> (exn + locals)" where
  "callback_strict cookie l =
     (case name_value cookie of (name, value) \<Rightarrow>
        if name = Some (str ''ct0'') then
          (case value of
             None \<Rightarrow> ([], Inl TypeError)
           | Some v \<Rightarrow>
               ([Console_log (Found_ct0 (substring0 v 20 @ str ''...''))],
                Inr \<lparr>tokens = put (put (tokens l) (str ''ct0'') v) (str ''csrf_token'') v,
                     foundTokens = foundTokens l + 2\<rparr>))
        else if name = Some (str ''auth_token'') then
          (case value of
             None \<Rightarrow> ([], Inl TypeError)
           | Some v \<Rightarrow>
               ([Console_log (Found_auth_token (substring0 v 20 @ str ''...''))],
                Inr \<lparr>tokens = put (tokens l) (str ''auth_token'') v,
                     foundTokens = foundTokens l + 1\<rparr>))
        else ([], Inr l))"

text \<open>\<open>cookies.forEach(f)\<close>: \<open>f\<close> on each element in order, up to the first exception.\<close>

fun forEach ::
  "(jsstring \<Rightarrow> locals \<Rightarrow> event list \<times> (exn + locals)) \<Rightarrow> jsstring list \<Rightarrow> locals
     \<Rightarrow> event list \<times> (exn + locals)" where
  "forEach f [] l = ([], Inr l)"
| "forEach f (c # cs) l =
     (case f c l of
        (es, Inl e) \<Rightarrow> (es, Inl e)
      | (es, Inr l') \<Rightarrow> (case forEach f cs l' of (es', r) \<Rightarrow> (es @ es', r)))"

text \<open>Lines 25 to 48: the locals after the bearer token is set, or the exception.\<close>

definition collect_strict :: "jsstring \<Rightarrow> event list \<times> (exn + locals)" where
  "collect_strict document_cookie =
     (case forEach callback_strict (cookies document_cookie) \<lparr>tokens = [], foundTokens = 0\<rparr> of
        (es, Inl e) \<Rightarrow> (es, Inl e)
      | (es, Inr l) \<Rightarrow>
          (es @ [Console_log Found_bearer_token],
           Inr \<lparr>tokens = put (tokens l) (str ''bearer_token'') bearer_token,
                foundTokens = foundTokens l + 1\<rparr>))"

text \<open>
  Lines 72 to 104 (173 to 205), the same in both scripts: the JSON text is printed and
  downloaded as \<open>config.json\<close>, and then written to the clipboard if there is one. The
  two promise callbacks run after the script has returned.
\<close>

definition clipboard_copy :: "clipboard \<Rightarrow> jsstring \<Rightarrow> event list" where
  "clipboard_copy clip config =
     (case clip of
        No_clipboard \<Rightarrow> []
      | Clipboard p \<Rightarrow>
          Clipboard_writeText config #
          (case p of
             Fulfilled \<Rightarrow> [Console_log Copied_to_clipboard]
           | Rejected \<Rightarrow> [Console_log Could_not_copy]
           | Pending \<Rightarrow> []))"

definition deliver :: "clipboard \<Rightarrow> object \<Rightarrow> event list" where
  "deliver clip toks =
     (let config = JSON_stringify toks in
        [Console_log Generated_config, Console_log (Text config),
         Download (str ''config.json'') config,
         Console_log Downloaded, Console_log Next_steps,
         Console_log Step_1, Console_log Step_2, Console_log Step_3]
        @ clipboard_copy clip config)"

text \<open>Lines 106 to 113 (207 to 214), the \<open>catch\<close> block.\<close>

definition catch_block :: "exn \<Rightarrow> event list" where
  "catch_block error =
     [Console_error (Error_extracting error), Console_error Troubleshooting,
      Console_error Trouble_1, Console_error Trouble_2, Console_error Trouble_3,
      Console_error Trouble_4]"

text \<open>
  Lines 51 to 69, the validation: what it prints, and the object that goes on to
  \<open>JSON.stringify\<close>, or \<open>None\<close> where the script returns.
\<close>

definition validate_strict :: "locals \<Rightarrow> event list \<times> object option" where
  "validate_strict l =
     (if js_not (get (tokens l) (str ''ct0'')) then
        ([Console_error Could_not_find_ct0, Console_error Make_sure_logged_in,
          Console_error Try_refreshing], None)
      else if js_not (get (tokens l) (str ''auth_token'')) then
        ([Console_error Could_not_find_auth_token, Console_error Make_sure_logged_in,
          Console_error Try_refreshing], None)
      else
        ([Console_log (Successfully_extracted (foundTokens l)),
          Console_log Tick_bearer_token, Console_log Tick_csrf_token,
          Console_log Tick_ct0, Console_log Tick_auth_token], Some (tokens l)))"

text \<open>Lines 17 to 115, the whole script, given \<open>document.cookie\<close> and the clipboard.\<close>

definition extractor_strict :: "jsstring \<Rightarrow> clipboard \<Rightarrow> event list" where
  "extractor_strict document_cookie clip =
     [Console_log Banner, Console_log Ruler] @
     (case collect_strict document_cookie of
        (es, Inl error) \<Rightarrow> es @ catch_block error
      | (es, Inr l) \<Rightarrow>
          (case validate_strict l of
             (es', None) \<Rightarrow> es @ es'
           | (es', Some toks) \<Rightarrow> es @ es' @ deliver clip toks))"

section \<open>The tolerant script (the second one, which reads \<open>ct0\<close> only)\<close>

text \<open>Lines 143 to 151.\<close>

definition callback_tolerant :: "jsstring \<Rightarrow> locals \<Rightarrow> event list \<times> (exn + locals)" where
  "callback_tolerant cookie l =
     (case name_value cookie of (name, value) \<Rightarrow>
        if name = Some (str ''ct0'') then
          (case value of
             None \<Rightarrow> ([], Inl TypeError)
           | Some v \<Rightarrow>
               ([Console_log (Found_ct0 (substring0 v 20 @ str ''...''))],
                Inr \<lparr>tokens = put (put (tokens l) (str ''ct0'') v) (str ''csrf_token'') v,
                     foundTokens = foundTokens l + 2\<rparr>))
        else ([], Inr l))"

text \<open>Lines 138 to 157.\<close>

definition collect_tolerant :: "jsstring \<Rightarrow> event list \<times> (exn + locals)" where
  "collect_tolerant document_cookie =
     (case forEach callback_tolerant (cookies document_cookie) \<lparr>tokens = [], foundTokens = 0\<rparr> of
        (es, Inl e) \<Rightarrow> (es, Inl e)
      | (es, Inr l) \<Rightarrow>
          (es @ [Console_log Using_default_bearer_token],
           Inr \<lparr>tokens = put (tokens l) (str ''bearer_token'') bearer_token,
                foundTokens = foundTokens l + 1\<rparr>))"

text \<open>Lines 160 to 170.\<close>

definition validate_tolerant :: "locals \<Rightarrow> event list \<times> object option" where
  "validate_tolerant l =
     (if js_not (get (tokens l) (str ''ct0'')) then
        ([Console_error Could_not_find_ct0, Console_error Make_sure_logged_in,
          Console_error Try_refreshing], None)
      else
        ([Console_log (Successfully_extracted (foundTokens l)),
          Console_log Tick_bearer_token, Console_log Tick_csrf_token,
          Console_log Tick_ct0], Some (tokens l)))"

text \<open>Lines 130 to 216.\<close>

definition extractor_tolerant :: "jsstring \<Rightarrow> clipboard \<Rightarrow> event list" where
  "extractor_tolerant document_cookie clip =
     [Console_log Banner, Console_log Ruler] @
     (case collect_tolerant document_cookie of
        (es, Inl error) \<Rightarrow> es @ catch_block error
      | (es, Inr l) \<Rightarrow>
          (case validate_tolerant l of
             (es', None) \<Rightarrow> es @ es'
           | (es', Some toks) \<Rightarrow> es @ es' @ deliver clip toks))"

section \<open>Both scripts, and what is observed of a run\<close>

datatype variant = Strict | Tolerant

fun callback :: "variant \<Rightarrow> jsstring \<Rightarrow> locals \<Rightarrow> event list \<times> (exn + locals)" where
  "callback Strict = callback_strict"
| "callback Tolerant = callback_tolerant"

fun collect :: "variant \<Rightarrow> jsstring \<Rightarrow> event list \<times> (exn + locals)" where
  "collect Strict = collect_strict"
| "collect Tolerant = collect_tolerant"

fun validate :: "variant \<Rightarrow> locals \<Rightarrow> event list \<times> object option" where
  "validate Strict = validate_strict"
| "validate Tolerant = validate_tolerant"

fun extractor :: "variant \<Rightarrow> jsstring \<Rightarrow> clipboard \<Rightarrow> event list" where
  "extractor Strict = extractor_strict"
| "extractor Tolerant = extractor_tolerant"

text \<open>
  The credential bundle of a run: the object given to \<open>JSON.stringify\<close> at line 72
  (173), if the run gets there.
\<close>

definition credential_bundle :: "variant \<Rightarrow> jsstring \<Rightarrow> object option" where
  "credential_bundle v document_cookie =
     (case collect v document_cookie of
        (es, Inl error) \<Rightarrow> None
      | (es, Inr l) \<Rightarrow> snd (validate v l))"

text \<open>Whether the run ends in the \<open>catch\<close> block.\<close>

definition throws :: "variant \<Rightarrow> jsstring \<Rightarrow> bool" where
  "throws v document_cookie = isl (snd (collect v document_cookie))"

text \<open>The files downloaded, the texts written to the clipboard, the errors printed.\<close>

fun downloaded :: "event \<Rightarrow> (jsstring \<times> jsstring) list" where
  "downloaded (Download file content) = [(file, content)]"
| "downloaded _ = []"

definition downloads :: "event list \<Rightarrow> (jsstring \<times> jsstring) list" where
  "downloads es = concat (map downloaded es)"

fun written :: "event \<Rightarrow> jsstring list" where
  "written (Clipboard_writeText config) = [config]"
| "written _ = []"

definition clipboard_writes :: "event list \<Rightarrow> jsstring list" where
  "clipboard_writes es = concat (map written es)"

fun error_printed :: "event \<Rightarrow> message list" where
  "error_printed (Console_error m) = [m]"
| "error_printed _ = []"

definition console_errors :: "event list \<Rightarrow> message list" where
  "console_errors es = concat (map error_printed es)"

definition could_not_find_ct0 :: "message list" where
  "could_not_find_ct0 = [Could_not_find_ct0, Make_sure_logged_in, Try_refreshing]"

section \<open>Properties of the parts\<close>

lemma split_not_Nil: "split sep s \<noteq> []"
  by (induction s) (auto split: list.splits)

lemma get_put_same: "get (put obj k v) k = Some v"
  by (induction obj) (auto simp: get_def)

lemma get_put_other: "k' \<noteq> k \<Longrightarrow> get (put obj k v) k' = get obj k'"
  by (induction obj) (auto simp: get_def)

lemma keys_distinct:
  "str ''ct0'' \<noteq> str ''csrf_token''" "str ''ct0'' \<noteq> str ''auth_token''"
  "str ''ct0'' \<noteq> str ''bearer_token''" "str ''csrf_token'' \<noteq> str ''auth_token''"
  "str ''csrf_token'' \<noteq> str ''bearer_token''" "str ''auth_token'' \<noteq> str ''bearer_token''"
  "str ''csrf_token'' \<noteq> str ''ct0''" "str ''auth_token'' \<noteq> str ''ct0''"
  "str ''bearer_token'' \<noteq> str ''ct0''" "str ''auth_token'' \<noteq> str ''csrf_token''"
  "str ''bearer_token'' \<noteq> str ''csrf_token''" "str ''bearer_token'' \<noteq> str ''auth_token''"
  by (simp_all add: str_def)

lemma forEach_append:
  "forEach f (xs @ ys) l =
     (case forEach f xs l of
        (es, Inl e) \<Rightarrow> (es, Inl e)
      | (es, Inr l') \<Rightarrow> (case forEach f ys l' of (es', r) \<Rightarrow> (es @ es', r)))"
  by (induction xs arbitrary: l) (auto split: prod.splits sum.splits)

text \<open>One call of the callback.\<close>

lemma callback_ct0:
  assumes "callback v c l = (es, Inr l')" and "name_value c = (Some (str ''ct0''), Some x)"
  shows "get (tokens l') (str ''ct0'') = Some x \<and> get (tokens l') (str ''csrf_token'') = Some x"
  using assms
  by (cases v)
     (auto simp: callback_strict_def callback_tolerant_def get_put_same get_put_other keys_distinct)

lemma callback_auth_token:
  assumes "callback Strict c l = (es, Inr l')"
    and "name_value c = (Some (str ''auth_token''), Some x)"
  shows "get (tokens l') (str ''auth_token'') = Some x"
  using assms
  by (auto simp: callback_strict_def get_put_same get_put_other keys_distinct)

lemma callback_other:
  assumes "callback v c l = (es, Inr l')" and "fst (name_value c) \<noteq> Some k"
    and "k = str ''ct0'' \<or> k = str ''auth_token''"
  shows "get (tokens l') k = get (tokens l) k"
  using assms
  by (cases v)
     (auto simp: callback_strict_def callback_tolerant_def get_put_same get_put_other keys_distinct
           split: prod.splits option.splits if_splits)

lemma callback_invariant:
  assumes "callback v c l = (es, Inr l')"
    and "get (tokens l) (str ''csrf_token'') = get (tokens l) (str ''ct0'')"
  shows "get (tokens l') (str ''csrf_token'') = get (tokens l') (str ''ct0'')"
  using assms
  by (cases v)
     (auto simp: callback_strict_def callback_tolerant_def get_put_same get_put_other keys_distinct
           split: prod.splits option.splits if_splits)

lemma callback_tolerant_no_auth_token:
  assumes "callback Tolerant c l = (es, Inr l')"
  shows "get (tokens l') (str ''auth_token'') = get (tokens l) (str ''auth_token'')"
  using assms
  by (auto simp: callback_tolerant_def get_put_same get_put_other keys_distinct
           split: prod.splits option.splits if_splits)

lemma callback_logs_only:
  assumes "callback v c l = (es, r)"
  shows "downloads es = [] \<and> clipboard_writes es = [] \<and> console_errors es = []"
  using assms
  by (cases v)
     (auto simp: callback_strict_def callback_tolerant_def downloads_def clipboard_writes_def
                 console_errors_def
           split: prod.splits option.splits if_splits)


text \<open>The whole loop.\<close>

lemma forEach_other:
  assumes "forEach (callback v) cs l = (es, Inr l')"
    and "\<forall>c\<in>set cs. fst (name_value c) \<noteq> Some k"
    and "k = str ''ct0'' \<or> k = str ''auth_token''"
  shows "get (tokens l') k = get (tokens l) k"
  using assms
proof (induction cs arbitrary: l es)
  case Nil
  then show ?case by simp
next
  case (Cons c cs)
  from Cons.prems(1) obtain es1 l1 es2
    where step: "callback v c l = (es1, Inr l1)" and rest: "forEach (callback v) cs l1 = (es2, Inr l')"
    by (auto split: prod.splits sum.splits)
  from step Cons.prems(2,3) have "get (tokens l1) k = get (tokens l) k"
    by (auto intro: callback_other)
  moreover from Cons.IH [OF rest] Cons.prems(2,3) have "get (tokens l') k = get (tokens l1) k"
    by simp
  ultimately show ?case by simp
qed

lemma forEach_invariant:
  assumes "forEach (callback v) cs l = (es, Inr l')"
    and "get (tokens l) (str ''csrf_token'') = get (tokens l) (str ''ct0'')"
  shows "get (tokens l') (str ''csrf_token'') = get (tokens l') (str ''ct0'')"
  using assms
proof (induction cs arbitrary: l es)
  case Nil
  then show ?case by simp
next
  case (Cons c cs)
  from Cons.prems(1) obtain es1 l1 es2
    where step: "callback v c l = (es1, Inr l1)" and rest: "forEach (callback v) cs l1 = (es2, Inr l')"
    by (auto split: prod.splits sum.splits)
  from step Cons.prems(2)
  have "get (tokens l1) (str ''csrf_token'') = get (tokens l1) (str ''ct0'')"
    by (rule callback_invariant)
  with rest show ?case by (rule Cons.IH)
qed

lemma forEach_tolerant_no_auth_token:
  assumes "forEach (callback Tolerant) cs l = (es, Inr l')"
  shows "get (tokens l') (str ''auth_token'') = get (tokens l) (str ''auth_token'')"
  using assms
proof (induction cs arbitrary: l es)
  case Nil
  then show ?case by simp
next
  case (Cons c cs)
  from Cons.prems(1) obtain es1 l1 es2
    where step: "callback Tolerant c l = (es1, Inr l1)"
      and rest: "forEach (callback Tolerant) cs l1 = (es2, Inr l')"
    by (auto split: prod.splits sum.splits)
  from step have "get (tokens l1) (str ''auth_token'') = get (tokens l) (str ''auth_token'')"
    by (rule callback_tolerant_no_auth_token)
  moreover from rest have "get (tokens l') (str ''auth_token'') = get (tokens l1) (str ''auth_token'')"
    by (rule Cons.IH)
  ultimately show ?case by simp
qed

lemma forEach_logs_only:
  assumes "forEach (callback v) cs l = (es, r)"
  shows "downloads es = [] \<and> clipboard_writes es = [] \<and> console_errors es = []"
  using assms
proof (induction cs arbitrary: l es r)
  case Nil
  then show ?case by (simp add: downloads_def clipboard_writes_def console_errors_def)
next
  case (Cons c cs)
  obtain es1 r1 where step: "callback v c l = (es1, r1)" by (cases "callback v c l")
  then have quiet: "downloads es1 = [] \<and> clipboard_writes es1 = [] \<and> console_errors es1 = []"
    by (rule callback_logs_only)
  show ?case
  proof (cases r1)
    case (Inl e)
    with step Cons.prems quiet show ?thesis by simp
  next
    case (Inr l1)
    obtain es2 r2 where rest: "forEach (callback v) cs l1 = (es2, r2)"
      by (cases "forEach (callback v) cs l1")
    then have "downloads es2 = [] \<and> clipboard_writes es2 = [] \<and> console_errors es2 = []"
      by (rule Cons.IH)
    moreover from step Inr rest Cons.prems have "es = es1 @ es2" by simp
    ultimately show ?thesis
      using quiet by (simp add: downloads_def clipboard_writes_def console_errors_def)
  qed
qed

lemma forEach_last:
  assumes run: "forEach (callback v) (before @ c # after) l = (es, Inr l')"
    and entry: "name_value c = (Some k, Some x)"
    and later: "\<forall>c'\<in>set after. fst (name_value c') \<noteq> Some k"
    and key: "k = str ''ct0'' \<or> (k = str ''auth_token'' \<and> v = Strict)"
  shows "get (tokens l') k = Some x"
proof -
  from run obtain es1 l1 es2 l2 es3
    where "forEach (callback v) before l = (es1, Inr l1)"
      and step: "callback v c l1 = (es2, Inr l2)"
      and rest: "forEach (callback v) after l2 = (es3, Inr l')"
    by (auto simp: forEach_append split: prod.splits sum.splits)
  from step entry key have "get (tokens l2) k = Some x"
    by (auto dest: callback_ct0 callback_auth_token)
  moreover from rest later key have "get (tokens l') k = get (tokens l2) k"
    by (auto intro: forEach_other)
  ultimately show ?thesis by simp
qed

text \<open>Splitting a cookie that is written \<open>ct0=x\<close>.\<close>

lemma split_no_separator: "sep \<notin> set s \<Longrightarrow> split sep s = [s]"
  by (induction s) auto

lemma name_value_ct0:
  assumes "trim c = str ''ct0='' @ x" and "0x3D \<notin> set x"
  shows "name_value c = (Some (str ''ct0''), Some x)"
  using assms by (simp add: name_value_def destructure_def element_def str_def split_no_separator)

text \<open>The observers on a run put together from parts.\<close>

lemma downloads_append: "downloads (es @ es') = downloads es @ downloads es'"
  by (simp add: downloads_def)

lemma clipboard_writes_append:
  "clipboard_writes (es @ es') = clipboard_writes es @ clipboard_writes es'"
  by (simp add: clipboard_writes_def)

lemma console_errors_append: "console_errors (es @ es') = console_errors es @ console_errors es'"
  by (simp add: console_errors_def)

lemma downloads_Cons: "downloads (e # es) = downloaded e @ downloads es"
  by (simp add: downloads_def)

lemma clipboard_writes_Cons: "clipboard_writes (e # es) = written e @ clipboard_writes es"
  by (simp add: clipboard_writes_def)

lemma console_errors_Cons: "console_errors (e # es) = error_printed e @ console_errors es"
  by (simp add: console_errors_def)

lemma observers_Nil: "downloads [] = []" "clipboard_writes [] = []" "console_errors [] = []"
  by (simp_all add: downloads_def clipboard_writes_def console_errors_def)

lemmas observers =
  observers_Nil downloads_Cons clipboard_writes_Cons console_errors_Cons
  downloads_append clipboard_writes_append console_errors_append

lemma collect_logs_only:
  assumes "collect v document_cookie = (es, r)"
  shows "downloads es = [] \<and> clipboard_writes es = [] \<and> console_errors es = []"
proof -
  obtain es0 r0
    where loop: "forEach (callback v) (cookies document_cookie) \<lparr>tokens = [], foundTokens = 0\<rparr> = (es0, r0)"
    by (cases "forEach (callback v) (cookies document_cookie) \<lparr>tokens = [], foundTokens = 0\<rparr>")
  then have quiet: "downloads es0 = [] \<and> clipboard_writes es0 = [] \<and> console_errors es0 = []"
    by (rule forEach_logs_only)
  from assms loop have "es = es0 \<or> (\<exists>m. es = es0 @ [Console_log m])"
    by (cases v; cases r0) (auto simp: collect_strict_def collect_tolerant_def)
  with quiet show ?thesis
    by (auto simp: observers)
qed

lemma collect_Inr:
  assumes "collect v document_cookie = (es, Inr l)"
  shows "\<exists>es0 l0. forEach (callback v) (cookies document_cookie) \<lparr>tokens = [], foundTokens = 0\<rparr>
                     = (es0, Inr l0)
                 \<and> tokens l = put (tokens l0) (str ''bearer_token'') bearer_token"
  using assms
  by (cases v) (auto simp: collect_strict_def collect_tolerant_def split: prod.splits sum.splits)

lemma validate_Some:
  assumes "validate v l = (es, Some toks)"
  shows "toks = tokens l \<and> \<not> js_not (get toks (str ''ct0''))
         \<and> (v = Strict \<longrightarrow> \<not> js_not (get toks (str ''auth_token'')))"
  using assms
  by (cases v) (auto simp: validate_strict_def validate_tolerant_def split: if_splits)

lemma validate_None:
  assumes "validate v l = (es, None)"
  shows "downloads es = [] \<and> clipboard_writes es = [] \<and>
         (console_errors es = could_not_find_ct0 \<or>
          console_errors es = [Could_not_find_auth_token, Make_sure_logged_in, Try_refreshing])"
  using assms
  by (cases v)
     (auto simp: validate_strict_def validate_tolerant_def observers could_not_find_ct0_def
           split: if_splits)

lemma validate_Some_logs_only:
  assumes "validate v l = (es, Some toks)"
  shows "downloads es = [] \<and> clipboard_writes es = [] \<and> console_errors es = []"
  using assms
  by (cases v)
     (auto simp: validate_strict_def validate_tolerant_def observers split: if_splits)

lemma extractor_eq:
  "extractor v document_cookie clip =
     [Console_log Banner, Console_log Ruler] @
     (case collect v document_cookie of
        (es, Inl error) \<Rightarrow> es @ catch_block error
      | (es, Inr l) \<Rightarrow>
          (case validate v l of
             (es', None) \<Rightarrow> es @ es'
           | (es', Some toks) \<Rightarrow> es @ es' @ deliver clip toks))"
  by (induction v)
     (simp_all add: extractor_strict_def extractor_tolerant_def split: prod.splits sum.splits)

lemma credential_bundle_Some:
  assumes "credential_bundle v document_cookie = Some toks"
  shows "\<exists>es l. forEach (callback v) (cookies document_cookie) \<lparr>tokens = [], foundTokens = 0\<rparr>
                   = (es, Inr l)
               \<and> toks = put (tokens l) (str ''bearer_token'') bearer_token"
    and "\<not> js_not (get toks (str ''ct0''))"
    and "v = Strict \<Longrightarrow> \<not> js_not (get toks (str ''auth_token''))"
proof -
  from assms obtain es1 l1 es2
    where c: "collect v document_cookie = (es1, Inr l1)" and "validate v l1 = (es2, Some toks)"
    by (auto simp: credential_bundle_def split: prod.splits sum.splits) (metis surjective_pairing)
  then have v: "toks = tokens l1 \<and> \<not> js_not (get toks (str ''ct0''))
         \<and> (v = Strict \<longrightarrow> \<not> js_not (get toks (str ''auth_token'')))"
    by (auto dest: validate_Some)
  with collect_Inr [OF c]
  show "\<exists>es l. forEach (callback v) (cookies document_cookie) \<lparr>tokens = [], foundTokens = 0\<rparr>
                   = (es, Inr l)
               \<and> toks = put (tokens l) (str ''bearer_token'') bearer_token"
    by auto
  from v show "\<not> js_not (get toks (str ''ct0''))" by blast
  from v show "v = Strict \<Longrightarrow> \<not> js_not (get toks (str ''auth_token''))" by blast
qed

lemma downloads_deliver:
  "downloads (deliver clip toks) = [(str ''config.json'', JSON_stringify toks)]"
  by (simp add: deliver_def clipboard_copy_def Let_def observers
           split: clipboard.splits promise.splits)

lemma downloads_extractor:
  "downloads (extractor v document_cookie clip) =
     (case credential_bundle v document_cookie of
        None \<Rightarrow> []
      | Some toks \<Rightarrow> [(str ''config.json'', JSON_stringify toks)])"
proof -
  obtain es r where c: "collect v document_cookie = (es, r)" by (cases "collect v document_cookie")
  then have quiet: "downloads es = []" by (auto dest: collect_logs_only)
  show ?thesis
  proof (cases r)
    case (Inl e)
    with c quiet show ?thesis
      by (simp add: extractor_eq credential_bundle_def catch_block_def observers)
  next
    case (Inr l)
    obtain es' b where val: "validate v l = (es', b)" by (cases "validate v l")
    show ?thesis
    proof (cases b)
      case None
      with c Inr val quiet validate_None [of v l es'] show ?thesis
        by (simp add: extractor_eq credential_bundle_def observers)
    next
      case (Some toks)
      with c Inr val quiet validate_Some_logs_only [of v l es' toks] show ?thesis
        by (simp add: extractor_eq credential_bundle_def downloads_deliver observers)
    qed
  qed
qed

text \<open>Unfolding the scripts on a given cookie string.\<close>

lemmas run_defs =
  credential_bundle_def collect_strict_def collect_tolerant_def cookies_def
  callback_strict_def callback_tolerant_def name_value_def destructure_def element_def
  trim_def is_white_space_def substring0_def validate_strict_def validate_tolerant_def
  js_not_def get_def str_def bearer_token_def

lemmas json_defs =
  JSON_stringify_def JSON_member_def QuoteJSONString_def quote_code_point_def
  is_leading_surrogate_def is_trailing_surrogate_def unicode_escape_def hex_digit_def

lemma console_errors_deliver: "console_errors (deliver clip toks) = []"
  by (simp add: deliver_def clipboard_copy_def Let_def observers
           split: clipboard.splits promise.splits)

lemma console_errors_extractor:
  "console_errors (extractor v document_cookie clip) =
     (case collect v document_cookie of
        (es, Inl error) \<Rightarrow> console_errors (catch_block error)
      | (es, Inr l) \<Rightarrow> console_errors (fst (validate v l)))"
proof -
  obtain es r where c: "collect v document_cookie = (es, r)" by (cases "collect v document_cookie")
  then have "console_errors es = []" by (auto dest: collect_logs_only)
  with c show ?thesis
    by (auto simp: extractor_eq observers console_errors_deliver
             split: prod.splits sum.splits option.splits)
qed

lemma extractor_clipboard:
  "extractor v document_cookie clip =
     extractor v document_cookie No_clipboard @
     (case credential_bundle v document_cookie of
        None \<Rightarrow> []
      | Some toks \<Rightarrow> clipboard_copy clip (JSON_stringify toks))"
  by (simp add: extractor_eq credential_bundle_def deliver_def clipboard_copy_def Let_def
           split: prod.splits sum.splits option.splits)

lemma clipboard_writes_No_clipboard:
  "clipboard_writes (extractor v document_cookie No_clipboard) = []"
proof -
  obtain es r where c: "collect v document_cookie = (es, r)" by (cases "collect v document_cookie")
  then have quiet: "clipboard_writes es = []" by (auto dest: collect_logs_only)
  show ?thesis
  proof (cases r)
    case (Inl e)
    with c quiet show ?thesis by (simp add: extractor_eq catch_block_def observers)
  next
    case (Inr l)
    obtain es' b where val: "validate v l = (es', b)" by (cases "validate v l")
    with c Inr quiet validate_None [of v l es'] validate_Some_logs_only [of v l es']
    show ?thesis
      by (cases b) (simp_all add: extractor_eq deliver_def clipboard_copy_def Let_def observers)
  qed
qed

lemma exn_is_TypeError: "e = TypeError"
  by (cases e)

lemma validate_without_ct0:
  assumes "js_not (get (tokens l) (str ''ct0''))"
  shows "validate v l =
           ([Console_error Could_not_find_ct0, Console_error Make_sure_logged_in,
             Console_error Try_refreshing], None)"
  using assms by (cases v) (simp_all add: validate_strict_def validate_tolerant_def)

text \<open>A run in which the loop leaves \<open>tokens.ct0\<close> unset or empty.\<close>

lemma run_without_ct0:
  assumes "\<And>es l. forEach (callback v) (cookies document_cookie) \<lparr>tokens = [], foundTokens = 0\<rparr>
                      = (es, Inr l) \<Longrightarrow> js_not (get (tokens l) (str ''ct0''))"
  shows "credential_bundle v document_cookie = None
         \<and> downloads (extractor v document_cookie clip) = []
         \<and> clipboard_writes (extractor v document_cookie clip) = []
         \<and> console_errors (extractor v document_cookie clip) =
             (if throws v document_cookie then console_errors (catch_block TypeError)
              else could_not_find_ct0)"
proof -
  obtain es r where c: "collect v document_cookie = (es, r)" by (cases "collect v document_cookie")
  have both: "credential_bundle v document_cookie = None
         \<and> console_errors (extractor v document_cookie clip) =
             (if throws v document_cookie then console_errors (catch_block TypeError)
              else could_not_find_ct0)"
  proof (cases r)
    case (Inl e)
    with c exn_is_TypeError [of e] show ?thesis
      by (simp add: credential_bundle_def console_errors_extractor throws_def)
  next
    case (Inr l)
    with c collect_Inr [of v document_cookie es l] obtain es0 l0
      where loop: "forEach (callback v) (cookies document_cookie) \<lparr>tokens = [], foundTokens = 0\<rparr>
                     = (es0, Inr l0)"
        and toks: "tokens l = put (tokens l0) (str ''bearer_token'') bearer_token"
      by auto
    from assms [OF loop] toks have "js_not (get (tokens l) (str ''ct0''))"
      by (simp add: get_put_other keys_distinct)
    then have val: "validate v l =
           ([Console_error Could_not_find_ct0, Console_error Make_sure_logged_in,
             Console_error Try_refreshing], None)"
      by (rule validate_without_ct0)
    with c Inr show ?thesis
      by (simp add: credential_bundle_def console_errors_extractor throws_def observers
                    could_not_find_ct0_def)
  qed
  then have none: "credential_bundle v document_cookie = None" by simp
  from none have "downloads (extractor v document_cookie clip) = []"
    by (simp add: downloads_extractor)
  moreover from none have "clipboard_writes (extractor v document_cookie clip) = []"
    using extractor_clipboard [of v document_cookie clip]
    by (simp add: clipboard_writes_No_clipboard)
  ultimately show ?thesis using both by simp
qed

lemma forEach_tolerant_skip:
  assumes "\<forall>c\<in>set cs. fst (name_value c) \<noteq> Some (str ''ct0'')"
  shows "forEach (callback Tolerant) cs l = ([], Inr l)"
  using assms
  by (induction cs) (auto simp: callback_tolerant_def split: prod.splits)

text \<open>
  The only exception of the scripts is the TypeError of \<open>value.substring\<close> on a cookie
  named \<open>ct0\<close> (in the strict script also \<open>auth_token\<close>) that has no \<open>=\<close>.
\<close>

lemma callback_throws:
  "isl (snd (callback v c l)) \<longleftrightarrow>
     name_value c = (Some (str ''ct0''), None)
     \<or> (v = Strict \<and> name_value c = (Some (str ''auth_token''), None))"
  by (cases v)
     (auto simp: callback_strict_def callback_tolerant_def keys_distinct
           split: prod.splits option.splits)

lemma forEach_throws:
  "isl (snd (forEach (callback v) cs l)) \<longleftrightarrow>
     (\<exists>c\<in>set cs. name_value c = (Some (str ''ct0''), None)
                 \<or> (v = Strict \<and> name_value c = (Some (str ''auth_token''), None)))"
proof (induction cs arbitrary: l)
  case Nil
  show ?case by simp
next
  case (Cons c cs)
  obtain es r where step: "callback v c l = (es, r)" by (cases "callback v c l")
  show ?case
  proof (cases r)
    case (Inl e)
    with step callback_throws [of v c l] show ?thesis by simp
  next
    case (Inr l')
    obtain es' r' where rest: "forEach (callback v) cs l' = (es', r')"
      by (cases "forEach (callback v) cs l'")
    with step Inr callback_throws [of v c l] Cons.IH [of l'] show ?thesis by auto
  qed
qed

lemma throws_iff:
  "throws v document_cookie \<longleftrightarrow>
     (\<exists>c\<in>set (cookies document_cookie).
        name_value c = (Some (str ''ct0''), None)
        \<or> (v = Strict \<and> name_value c = (Some (str ''auth_token''), None)))"
proof -
  have "throws v document_cookie \<longleftrightarrow>
          isl (snd (forEach (callback v) (cookies document_cookie) \<lparr>tokens = [], foundTokens = 0\<rparr>))"
    by (cases v)
       (auto simp: throws_def collect_strict_def collect_tolerant_def split: prod.splits sum.splits)
  then show ?thesis by (simp only: forEach_throws)
qed

lemma clipboard_writes_clipboard_copy:
  "clipboard_writes (clipboard_copy clip config) =
     (case clip of No_clipboard \<Rightarrow> [] | Clipboard p \<Rightarrow> [config])"
  by (simp add: clipboard_copy_def observers split: clipboard.splits promise.splits)

text \<open>
  The value of the last cookie named \<open>k\<close>, as line 31 (144) takes it, is the one the
  bundle has.
\<close>

lemma bundle_last_value:
  assumes "credential_bundle v document_cookie = Some toks"
    and "cookies document_cookie = before @ c # after"
    and "name_value c = (Some k, Some x)"
    and "\<forall>c'\<in>set after. fst (name_value c') \<noteq> Some k"
    and "k = str ''ct0'' \<or> (k = str ''auth_token'' \<and> v = Strict)"
  shows "get toks k = Some x"
proof -
  from credential_bundle_Some(1) [OF assms(1)] assms(2) obtain es l
    where loop: "forEach (callback v) (before @ c # after) \<lparr>tokens = [], foundTokens = 0\<rparr>
                   = (es, Inr l)"
      and toks: "toks = put (tokens l) (str ''bearer_token'') bearer_token"
    by auto
  from loop assms(3,4,5) have "get (tokens l) k = Some x"
    by (rule forEach_last)
  with toks assms(5) show ?thesis
    by (auto simp: get_put_other keys_distinct)
qed

section \<open>The claims\<close>

text \<open>
  C1, as the scripts have it: when the last cookie named \<open>ct0\<close> is written \<open>ct0=x\<close>
  (after \<open>trim\<close>) and \<open>x\<close> has no \<open>=\<close> in it, a bundle that is produced has \<open>x\<close> as its
  \<open>ct0\<close> and as its \<open>csrf_token\<close>. A value with an \<open>=\<close> in it is left to C2.
\<close>

theorem ct0_in_bundle:
  assumes "credential_bundle v document_cookie = Some toks"
    and "cookies document_cookie = before @ c # after"
    and "trim c = str ''ct0='' @ x"
    and "0x3D \<notin> set x"
    and "\<forall>c'\<in>set after. fst (name_value c') \<noteq> Some (str ''ct0'')"
  shows "get toks (str ''ct0'') = Some x \<and> get toks (str ''csrf_token'') = Some x"
proof -
  from assms(3,4) have entry: "name_value c = (Some (str ''ct0''), Some x)"
    by (rule name_value_ct0)
  from credential_bundle_Some(1) [OF assms(1)] assms(2) obtain es l
    where loop: "forEach (callback v) (before @ c # after) \<lparr>tokens = [], foundTokens = 0\<rparr>
                   = (es, Inr l)"
      and toks: "toks = put (tokens l) (str ''bearer_token'') bearer_token"
    by auto
  from loop entry assms(5) have "get (tokens l) (str ''ct0'') = Some x"
    by (rule forEach_last) simp
  moreover from loop have "get (tokens l) (str ''csrf_token'') = get (tokens l) (str ''ct0'')"
    by (rule forEach_invariant) (simp add: get_def)
  ultimately show ?thesis using toks
    by (simp add: get_put_other keys_distinct)
qed

theorem ct0_in_bundle_witness:
  "credential_bundle Tolerant (str ''lang=en; ct0=abc123 ; theme=dark'')
     = Some [(str ''ct0'', str ''abc123''), (str ''csrf_token'', str ''abc123''),
             (str ''bearer_token'', bearer_token)]
   \<and> cookies (str ''lang=en; ct0=abc123 ; theme=dark'')
     = [str ''lang=en''] @ str '' ct0=abc123 '' # [str '' theme=dark'']
   \<and> trim (str '' ct0=abc123 '') = str ''ct0='' @ str ''abc123''
   \<and> 0x3D \<notin> set (str ''abc123'')
   \<and> fst (name_value (str '' theme=dark'')) \<noteq> Some (str ''ct0'')
   \<and> get [(str ''ct0'', str ''abc123''), (str ''csrf_token'', str ''abc123''),
          (str ''bearer_token'', bearer_token)] (str ''ct0'') = Some (str ''abc123'')
   \<and> get [(str ''ct0'', str ''abc123''), (str ''csrf_token'', str ''abc123''),
          (str ''bearer_token'', bearer_token)] (str ''csrf_token'') = Some (str ''abc123'')"
proof -
  have 1: "credential_bundle Tolerant (str ''lang=en; ct0=abc123 ; theme=dark'')
     = Some [(str ''ct0'', str ''abc123''), (str ''csrf_token'', str ''abc123''),
             (str ''bearer_token'', bearer_token)]"
    by (simp add: run_defs)
  have 2: "cookies (str ''lang=en; ct0=abc123 ; theme=dark'')
     = [str ''lang=en''] @ str '' ct0=abc123 '' # [str '' theme=dark'']"
    by (simp add: run_defs)
  have 3: "trim (str '' ct0=abc123 '') = str ''ct0='' @ str ''abc123''"
    by (simp add: run_defs)
  have 4: "0x3D \<notin> set (str ''abc123'')"
    by (simp add: str_def)
  have 5: "\<forall>c'\<in>set [str '' theme=dark'']. fst (name_value c') \<noteq> Some (str ''ct0'')"
    by (simp add: run_defs)
  from ct0_in_bundle [OF 1 2 3 4 5] 1 2 3 4 5 show ?thesis by simp
qed

text \<open>
  C1 as it is written fails where two cookies are named \<open>ct0\<close>: the cookie string
  has the cookie \<open>ct0=a\<close>, and the bundle has \<open>b\<close>.
\<close>

theorem ct0_in_bundle_counterexample:
  "str ''ct0=a'' \<in> set (cookies (str ''ct0=a; ct0=b''))
   \<and> trim (str ''ct0=a'') = str ''ct0='' @ str ''a''
   \<and> credential_bundle Tolerant (str ''ct0=a; ct0=b'')
       = Some [(str ''ct0'', str ''b''), (str ''csrf_token'', str ''b''),
               (str ''bearer_token'', bearer_token)]
   \<and> get [(str ''ct0'', str ''b''), (str ''csrf_token'', str ''b''),
          (str ''bearer_token'', bearer_token)] (str ''ct0'') \<noteq> Some (str ''a'')"
  by (simp add: run_defs)

text \<open>
  C2: \<open>split("=")\<close> cuts at every \<open>=\<close> and the destructuring keeps the first two
  pieces, so of the cookie \<open>ct0=v1=v2\<close> the scripts keep \<open>v1\<close>, not \<open>v1=v2\<close>.
\<close>

theorem value_cut_at_second_equals:
  "split 0x3D (trim (str '' ct0=v1=v2'')) = [str ''ct0'', str ''v1'', str ''v2'']
   \<and> name_value (str '' ct0=v1=v2'') = (Some (str ''ct0''), Some (str ''v1''))
   \<and> credential_bundle Strict (str ''auth_token=xyz789; ct0=v1=v2'')
       = Some [(str ''auth_token'', str ''xyz789''), (str ''ct0'', str ''v1''),
               (str ''csrf_token'', str ''v1''), (str ''bearer_token'', bearer_token)]
   \<and> credential_bundle Tolerant (str ''auth_token=xyz789; ct0=v1=v2'')
       = Some [(str ''ct0'', str ''v1''), (str ''csrf_token'', str ''v1''),
               (str ''bearer_token'', bearer_token)]"
  by (simp add: run_defs)

text \<open>
  C3: when no cookie is named \<open>ct0\<close>, no bundle is built, nothing is downloaded and
  nothing is written to the clipboard; the errors printed are those of the missing
  \<open>ct0\<close>, or those of the \<open>catch\<close> block when the strict script threw on an
  \<open>auth_token\<close> cookie without \<open>=\<close>. The tolerant script does not throw here.
\<close>

theorem no_ct0_no_file:
  assumes "\<forall>c\<in>set (cookies document_cookie). fst (name_value c) \<noteq> Some (str ''ct0'')"
  shows "credential_bundle v document_cookie = None
         \<and> downloads (extractor v document_cookie clip) = []
         \<and> clipboard_writes (extractor v document_cookie clip) = []
         \<and> console_errors (extractor v document_cookie clip) =
             (if throws v document_cookie then console_errors (catch_block TypeError)
              else could_not_find_ct0)
         \<and> \<not> throws Tolerant document_cookie"
proof -
  have "js_not (get (tokens l) (str ''ct0''))"
    if "forEach (callback v) (cookies document_cookie) \<lparr>tokens = [], foundTokens = 0\<rparr>
          = (es, Inr l)" for es l
  proof -
    from that assms
    have "get (tokens l) (str ''ct0'') = get (tokens \<lparr>tokens = [], foundTokens = 0\<rparr>) (str ''ct0'')"
      by (intro forEach_other) auto
    then show ?thesis by (simp add: get_def js_not_def)
  qed
  then have "credential_bundle v document_cookie = None
         \<and> downloads (extractor v document_cookie clip) = []
         \<and> clipboard_writes (extractor v document_cookie clip) = []
         \<and> console_errors (extractor v document_cookie clip) =
             (if throws v document_cookie then console_errors (catch_block TypeError)
              else could_not_find_ct0)"
    by (rule run_without_ct0)
  moreover from assms have "\<not> throws Tolerant document_cookie"
    by (simp add: throws_def collect_tolerant_def forEach_tolerant_skip [unfolded callback.simps])
  ultimately show ?thesis by simp
qed

theorem no_ct0_no_file_witness:
  "cookies (str ''lang=en; auth_token=xyz789'') = [str ''lang=en'', str '' auth_token=xyz789'']
   \<and> fst (name_value (str ''lang=en'')) \<noteq> Some (str ''ct0'')
   \<and> fst (name_value (str '' auth_token=xyz789'')) \<noteq> Some (str ''ct0'')
   \<and> downloads (extractor Strict (str ''lang=en; auth_token=xyz789'') (Clipboard Fulfilled)) = []
   \<and> console_errors (extractor Strict (str ''lang=en; auth_token=xyz789'') (Clipboard Fulfilled))
       = [Could_not_find_ct0, Make_sure_logged_in, Try_refreshing]"
proof -
  have h: "\<forall>c\<in>set (cookies (str ''lang=en; auth_token=xyz789'')). fst (name_value c) \<noteq> Some (str ''ct0'')"
    by (simp add: run_defs)
  have t: "\<not> throws Strict (str ''lang=en; auth_token=xyz789'')"
    by (simp add: throws_def run_defs)
  have c: "cookies (str ''lang=en; auth_token=xyz789'') = [str ''lang=en'', str '' auth_token=xyz789'']"
    by (simp add: run_defs)
  have n: "fst (name_value (str ''lang=en'')) \<noteq> Some (str ''ct0'')"
          "fst (name_value (str '' auth_token=xyz789'')) \<noteq> Some (str ''ct0'')"
    by (simp_all add: run_defs)
  from no_ct0_no_file [OF h, of Strict "Clipboard Fulfilled"] t c n show ?thesis
    by (simp add: could_not_find_ct0_def)
qed

text \<open>
  C4: whatever the cookies are, a bundle that is produced has the fixed constant as its
  \<open>bearer_token\<close>, and its JSON text is the file downloaded as \<open>config.json\<close>.
\<close>

theorem bearer_token_fixed:
  assumes "credential_bundle v document_cookie = Some toks"
  shows "get toks (str ''bearer_token'') = Some bearer_token
         \<and> downloads (extractor v document_cookie clip) = [(str ''config.json'', JSON_stringify toks)]"
proof -
  from credential_bundle_Some(1) [OF assms]
  have "get toks (str ''bearer_token'') = Some bearer_token"
    by (auto simp: get_put_same)
  with assms show ?thesis by (simp add: downloads_extractor)
qed

theorem bearer_token_fixed_witness:
  "credential_bundle Strict (str ''bearer_token=other; ct0=abc123; auth_token=xyz789'')
     = Some [(str ''ct0'', str ''abc123''), (str ''csrf_token'', str ''abc123''),
             (str ''auth_token'', str ''xyz789''), (str ''bearer_token'', bearer_token)]
   \<and> get [(str ''ct0'', str ''abc123''), (str ''csrf_token'', str ''abc123''),
          (str ''auth_token'', str ''xyz789''), (str ''bearer_token'', bearer_token)]
         (str ''bearer_token'') = Some bearer_token"
proof -
  have h: "credential_bundle Strict (str ''bearer_token=other; ct0=abc123; auth_token=xyz789'')
     = Some [(str ''ct0'', str ''abc123''), (str ''csrf_token'', str ''abc123''),
             (str ''auth_token'', str ''xyz789''), (str ''bearer_token'', bearer_token)]"
    by (simp add: run_defs)
  from bearer_token_fixed [OF h, of No_clipboard] h show ?thesis by simp
qed

text \<open>
  C5: in a bundle that reaches \<open>JSON.stringify\<close>, \<open>csrf_token\<close> and \<open>ct0\<close> are the same,
  and \<open>ct0\<close> is a string that is not empty.
\<close>

theorem csrf_token_is_ct0:
  assumes "credential_bundle v document_cookie = Some toks"
  shows "get toks (str ''csrf_token'') = get toks (str ''ct0'')
         \<and> (\<exists>s. get toks (str ''ct0'') = Some s \<and> s \<noteq> [])"
proof -
  from credential_bundle_Some(1) [OF assms] obtain es l
    where loop: "forEach (callback v) (cookies document_cookie) \<lparr>tokens = [], foundTokens = 0\<rparr>
                   = (es, Inr l)"
      and toks: "toks = put (tokens l) (str ''bearer_token'') bearer_token"
    by blast
  from loop have "get (tokens l) (str ''csrf_token'') = get (tokens l) (str ''ct0'')"
    by (rule forEach_invariant) (simp add: get_def)
  with toks have same: "get toks (str ''csrf_token'') = get toks (str ''ct0'')"
    by (simp add: get_put_other keys_distinct)
  from credential_bundle_Some(2) [OF assms]
  have "\<exists>s. get toks (str ''ct0'') = Some s \<and> s \<noteq> []"
    by (cases "get toks (str ''ct0'')") (simp_all add: js_not_def)
  with same show ?thesis by simp
qed

theorem csrf_token_is_ct0_witness:
  "credential_bundle Tolerant (str ''ct0=abc123'')
     = Some [(str ''ct0'', str ''abc123''), (str ''csrf_token'', str ''abc123''),
             (str ''bearer_token'', bearer_token)]
   \<and> get [(str ''ct0'', str ''abc123''), (str ''csrf_token'', str ''abc123''),
          (str ''bearer_token'', bearer_token)] (str ''csrf_token'') = Some (str ''abc123'')
   \<and> get [(str ''ct0'', str ''abc123''), (str ''csrf_token'', str ''abc123''),
          (str ''bearer_token'', bearer_token)] (str ''ct0'') = Some (str ''abc123'')"
proof -
  have h: "credential_bundle Tolerant (str ''ct0=abc123'')
     = Some [(str ''ct0'', str ''abc123''), (str ''csrf_token'', str ''abc123''),
             (str ''bearer_token'', bearer_token)]"
    by (simp add: run_defs)
  from csrf_token_is_ct0 [OF h] h show ?thesis by (simp add: get_def str_def)
qed

text \<open>
  C6: on \<open>"ct0=abc123; auth_token=xyz789"\<close> the strict script builds the object of the four
  properties \<open>ct0\<close>, \<open>csrf_token\<close>, \<open>auth_token\<close> and \<open>bearer_token\<close>, and downloads its
  JSON text as \<open>config.json\<close>.
\<close>

theorem strict_on_both_cookies: \<open>
  credential_bundle Strict (str ''ct0=abc123; auth_token=xyz789'')
    = Some [(str ''ct0'', str ''abc123''), (str ''csrf_token'', str ''abc123''),
            (str ''auth_token'', str ''xyz789''), (str ''bearer_token'', bearer_token)]
  \<and> downloads (extractor Strict (str ''ct0=abc123; auth_token=xyz789'') clip)
    = [(str ''config.json'',
        str ''{\<newline>  "ct0": "abc123",\<newline>  "csrf_token": "abc123",\<newline>  "auth_token": "xyz789",\<newline>  "bearer_token": "AAAAAAAAAAAAAAAAAAAAAMLheAAAAAAA0%2BuSeid%2BULvsea4JtiGRiSDyJug%3D"\<newline>}'')]
  \<and> console_errors (extractor Strict (str ''ct0=abc123; auth_token=xyz789'') clip) = []\<close>
proof -
  have b: "credential_bundle Strict (str ''ct0=abc123; auth_token=xyz789'')
    = Some [(str ''ct0'', str ''abc123''), (str ''csrf_token'', str ''abc123''),
            (str ''auth_token'', str ''xyz789''), (str ''bearer_token'', bearer_token)]"
    by (simp add: run_defs)
  have j: \<open>JSON_stringify [(str ''ct0'', str ''abc123''), (str ''csrf_token'', str ''abc123''),
            (str ''auth_token'', str ''xyz789''), (str ''bearer_token'', bearer_token)]
    = str ''{\<newline>  "ct0": "abc123",\<newline>  "csrf_token": "abc123",\<newline>  "auth_token": "xyz789",\<newline>  "bearer_token": "AAAAAAAAAAAAAAAAAAAAAMLheAAAAAAA0%2BuSeid%2BULvsea4JtiGRiSDyJug%3D"\<newline>}''\<close>
    by (simp add: json_defs str_def bearer_token_def)
  have e: "console_errors (extractor Strict (str ''ct0=abc123; auth_token=xyz789'') clip) = []"
    unfolding console_errors_extractor by (simp add: run_defs observers)
  from b j e downloads_extractor [of Strict "str ''ct0=abc123; auth_token=xyz789''" clip]
  show ?thesis by simp
qed

text \<open>
  C7: on \<open>"ct0=abc123"\<close> the tolerant script succeeds with a bundle that has no
  \<open>auth_token\<close> property; the strict script prints the error for the missing
  \<open>auth_token\<close> and downloads nothing.
\<close>

theorem ct0_alone: \<open>
  credential_bundle Tolerant (str ''ct0=abc123'')
    = Some [(str ''ct0'', str ''abc123''), (str ''csrf_token'', str ''abc123''),
            (str ''bearer_token'', bearer_token)]
  \<and> downloads (extractor Tolerant (str ''ct0=abc123'') clip)
    = [(str ''config.json'',
        str ''{\<newline>  "ct0": "abc123",\<newline>  "csrf_token": "abc123",\<newline>  "bearer_token": "AAAAAAAAAAAAAAAAAAAAAMLheAAAAAAA0%2BuSeid%2BULvsea4JtiGRiSDyJug%3D"\<newline>}'')]
  \<and> console_errors (extractor Tolerant (str ''ct0=abc123'') clip) = []
  \<and> credential_bundle Strict (str ''ct0=abc123'') = None
  \<and> downloads (extractor Strict (str ''ct0=abc123'') clip) = []
  \<and> console_errors (extractor Strict (str ''ct0=abc123'') clip)
    = [Could_not_find_auth_token, Make_sure_logged_in, Try_refreshing]\<close>
proof -
  have b: "credential_bundle Tolerant (str ''ct0=abc123'')
    = Some [(str ''ct0'', str ''abc123''), (str ''csrf_token'', str ''abc123''),
            (str ''bearer_token'', bearer_token)]"
    by (simp add: run_defs)
  have j: \<open>JSON_stringify [(str ''ct0'', str ''abc123''), (str ''csrf_token'', str ''abc123''),
            (str ''bearer_token'', bearer_token)]
    = str ''{\<newline>  "ct0": "abc123",\<newline>  "csrf_token": "abc123",\<newline>  "bearer_token": "AAAAAAAAAAAAAAAAAAAAAMLheAAAAAAA0%2BuSeid%2BULvsea4JtiGRiSDyJug%3D"\<newline>}''\<close>
    by (simp add: json_defs str_def bearer_token_def)
  have e: "console_errors (extractor Tolerant (str ''ct0=abc123'') clip) = []"
    unfolding console_errors_extractor by (simp add: run_defs observers)
  have s: "credential_bundle Strict (str ''ct0=abc123'') = None"
    by (simp add: run_defs)
  have f: "console_errors (extractor Strict (str ''ct0=abc123'') clip)
    = [Could_not_find_auth_token, Make_sure_logged_in, Try_refreshing]"
    unfolding console_errors_extractor by (simp add: run_defs observers)
  from b j e s f downloads_extractor [of Tolerant "str ''ct0=abc123''" clip]
    downloads_extractor [of Strict "str ''ct0=abc123''" clip]
  show ?thesis by simp
qed

text \<open>
  C8: a run with a clipboard is the run without one followed by what the clipboard
  adds: the write of the same JSON text, and one \<open>console.log\<close> when the promise is
  settled. The run without a clipboard already has the download of a bundle that is
  produced, so the file is saved before the write is attempted; it has no write, and the
  file and the errors are the same whatever the clipboard is. A rejected write adds the
  notice \<open>Could_not_copy\<close> and nothing else.
\<close>

theorem clipboard_is_best_effort:
  "extractor v document_cookie clip =
     extractor v document_cookie No_clipboard @
     (case credential_bundle v document_cookie of
        None \<Rightarrow> []
      | Some toks \<Rightarrow> clipboard_copy clip (JSON_stringify toks))
   \<and> downloads (extractor v document_cookie No_clipboard) =
       (case credential_bundle v document_cookie of
          None \<Rightarrow> []
        | Some toks \<Rightarrow> [(str ''config.json'', JSON_stringify toks)])
   \<and> clipboard_writes (extractor v document_cookie No_clipboard) = []
   \<and> downloads (extractor v document_cookie clip) = downloads (extractor v document_cookie No_clipboard)
   \<and> console_errors (extractor v document_cookie clip)
       = console_errors (extractor v document_cookie No_clipboard)
   \<and> clipboard_writes (extractor v document_cookie clip) =
       (case credential_bundle v document_cookie of
          None \<Rightarrow> []
        | Some toks \<Rightarrow> (case clip of No_clipboard \<Rightarrow> [] | Clipboard p \<Rightarrow> [JSON_stringify toks]))
   \<and> clipboard_copy (Clipboard Rejected) config = [Clipboard_writeText config, Console_log Could_not_copy]
   \<and> clipboard_copy No_clipboard config = []"
proof -
  have 1: "extractor v document_cookie clip =
     extractor v document_cookie No_clipboard @
     (case credential_bundle v document_cookie of
        None \<Rightarrow> []
      | Some toks \<Rightarrow> clipboard_copy clip (JSON_stringify toks))"
    by (rule extractor_clipboard)
  have 2: "clipboard_writes (extractor v document_cookie No_clipboard) = []"
    by (rule clipboard_writes_No_clipboard)
  have 3: "downloads (extractor v document_cookie clip)
             = downloads (extractor v document_cookie No_clipboard)"
    by (simp add: downloads_extractor)
  have 4: "console_errors (extractor v document_cookie clip)
             = console_errors (extractor v document_cookie No_clipboard)"
    by (simp add: console_errors_extractor)
  have 5: "clipboard_copy (Clipboard Rejected) config
             = [Clipboard_writeText config, Console_log Could_not_copy]"
    by (simp add: clipboard_copy_def)
  have 6: "clipboard_copy No_clipboard config = []"
    by (simp add: clipboard_copy_def)
  have 7: "downloads (extractor v document_cookie No_clipboard) =
       (case credential_bundle v document_cookie of
          None \<Rightarrow> []
        | Some toks \<Rightarrow> [(str ''config.json'', JSON_stringify toks)])"
    by (rule downloads_extractor)
  have "clipboard_writes (extractor v document_cookie clip) =
          clipboard_writes (case credential_bundle v document_cookie of
        None \<Rightarrow> []
      | Some toks \<Rightarrow> clipboard_copy clip (JSON_stringify toks))"
    using 2 by (subst 1) (simp add: clipboard_writes_append)
  then have 8: "clipboard_writes (extractor v document_cookie clip) =
       (case credential_bundle v document_cookie of
          None \<Rightarrow> []
        | Some toks \<Rightarrow> (case clip of No_clipboard \<Rightarrow> [] | Clipboard p \<Rightarrow> [JSON_stringify toks]))"
    by (simp add: clipboard_writes_clipboard_copy observers split: option.splits)
  show ?thesis by (intro conjI 1 7 2 3 4 8 5 6)
qed

theorem clipboard_is_best_effort_witness: \<open>
  extractor Tolerant (str ''ct0=abc123'') (Clipboard Rejected) =
    extractor Tolerant (str ''ct0=abc123'') No_clipboard @
    [Clipboard_writeText (str ''{\<newline>  "ct0": "abc123",\<newline>  "csrf_token": "abc123",\<newline>  "bearer_token": "AAAAAAAAAAAAAAAAAAAAAMLheAAAAAAA0%2BuSeid%2BULvsea4JtiGRiSDyJug%3D"\<newline>}''),
     Console_log Could_not_copy]
  \<and> downloads (extractor Tolerant (str ''ct0=abc123'') No_clipboard) =
    [(str ''config.json'', str ''{\<newline>  "ct0": "abc123",\<newline>  "csrf_token": "abc123",\<newline>  "bearer_token": "AAAAAAAAAAAAAAAAAAAAAMLheAAAAAAA0%2BuSeid%2BULvsea4JtiGRiSDyJug%3D"\<newline>}'')]
  \<and> downloads (extractor Tolerant (str ''ct0=abc123'') (Clipboard Rejected)) =
    [(str ''config.json'', str ''{\<newline>  "ct0": "abc123",\<newline>  "csrf_token": "abc123",\<newline>  "bearer_token": "AAAAAAAAAAAAAAAAAAAAAMLheAAAAAAA0%2BuSeid%2BULvsea4JtiGRiSDyJug%3D"\<newline>}'')]
  \<and> console_errors (extractor Tolerant (str ''ct0=abc123'') (Clipboard Rejected)) = []\<close>
proof -
  have b: "credential_bundle Tolerant (str ''ct0=abc123'')
    = Some [(str ''ct0'', str ''abc123''), (str ''csrf_token'', str ''abc123''),
            (str ''bearer_token'', bearer_token)]"
    by (simp add: run_defs)
  have j: \<open>JSON_stringify [(str ''ct0'', str ''abc123''), (str ''csrf_token'', str ''abc123''),
            (str ''bearer_token'', bearer_token)]
    = str ''{\<newline>  "ct0": "abc123",\<newline>  "csrf_token": "abc123",\<newline>  "bearer_token": "AAAAAAAAAAAAAAAAAAAAAMLheAAAAAAA0%2BuSeid%2BULvsea4JtiGRiSDyJug%3D"\<newline>}''\<close>
    by (simp add: json_defs str_def bearer_token_def)
  have e: "console_errors (extractor Tolerant (str ''ct0=abc123'') No_clipboard) = []"
    unfolding console_errors_extractor by (simp add: run_defs observers)
  note t = clipboard_is_best_effort [of Tolerant "str ''ct0=abc123''" "Clipboard Rejected" "[]"]
  from t have 1: "extractor Tolerant (str ''ct0=abc123'') (Clipboard Rejected) =
     extractor Tolerant (str ''ct0=abc123'') No_clipboard @
     (case credential_bundle Tolerant (str ''ct0=abc123'') of
        None \<Rightarrow> []
      | Some toks \<Rightarrow> clipboard_copy (Clipboard Rejected) (JSON_stringify toks))"
    by (rule conjunct1)
  from t have 2: "downloads (extractor Tolerant (str ''ct0=abc123'') No_clipboard) =
       (case credential_bundle Tolerant (str ''ct0=abc123'') of
          None \<Rightarrow> []
        | Some toks \<Rightarrow> [(str ''config.json'', JSON_stringify toks)])"
    by blast
  from t have 3: "downloads (extractor Tolerant (str ''ct0=abc123'') (Clipboard Rejected))
      = downloads (extractor Tolerant (str ''ct0=abc123'') No_clipboard)"
    by blast
  from t have 4: "console_errors (extractor Tolerant (str ''ct0=abc123'') (Clipboard Rejected))
      = console_errors (extractor Tolerant (str ''ct0=abc123'') No_clipboard)"
    by blast
  have a1: "extractor Tolerant (str ''ct0=abc123'') (Clipboard Rejected) =
     extractor Tolerant (str ''ct0=abc123'') No_clipboard @
     clipboard_copy (Clipboard Rejected) (JSON_stringify [(str ''ct0'', str ''abc123''), (str ''csrf_token'', str ''abc123''),
            (str ''bearer_token'', bearer_token)])"
    using 1 by (simp only: b option.case)
  have a2: "downloads (extractor Tolerant (str ''ct0=abc123'') No_clipboard) =
       [(str ''config.json'', JSON_stringify [(str ''ct0'', str ''abc123''), (str ''csrf_token'', str ''abc123''),
            (str ''bearer_token'', bearer_token)])]"
    using 2 by (simp only: b option.case)
  from a1 have w1: \<open>extractor Tolerant (str ''ct0=abc123'') (Clipboard Rejected) =
    extractor Tolerant (str ''ct0=abc123'') No_clipboard @
    [Clipboard_writeText (str ''{\<newline>  "ct0": "abc123",\<newline>  "csrf_token": "abc123",\<newline>  "bearer_token": "AAAAAAAAAAAAAAAAAAAAAMLheAAAAAAA0%2BuSeid%2BULvsea4JtiGRiSDyJug%3D"\<newline>}''),
     Console_log Could_not_copy]\<close>
    by (simp only: j clipboard_copy_def clipboard.case promise.case)
  from a2 have w2: \<open>downloads (extractor Tolerant (str ''ct0=abc123'') No_clipboard) =
    [(str ''config.json'', str ''{\<newline>  "ct0": "abc123",\<newline>  "csrf_token": "abc123",\<newline>  "bearer_token": "AAAAAAAAAAAAAAAAAAAAAMLheAAAAAAA0%2BuSeid%2BULvsea4JtiGRiSDyJug%3D"\<newline>}'')]\<close>
    by (simp only: j)
  from 3 w2 have w3: \<open>downloads (extractor Tolerant (str ''ct0=abc123'') (Clipboard Rejected)) =
    [(str ''config.json'', str ''{\<newline>  "ct0": "abc123",\<newline>  "csrf_token": "abc123",\<newline>  "bearer_token": "AAAAAAAAAAAAAAAAAAAAAMLheAAAAAAA0%2BuSeid%2BULvsea4JtiGRiSDyJug%3D"\<newline>}'')]\<close>
    by (simp only:)
  from 4 e have w4: "console_errors (extractor Tolerant (str ''ct0=abc123'') (Clipboard Rejected)) = []"
    by (simp only:)
  show ?thesis by (intro conjI w1 w2 w3 w4)
qed

text \<open>
  C9, as the scripts have it: when the last cookie named \<open>ct0\<close> is \<open>ct0=\<close>, with the
  empty value, no bundle is built, nothing is downloaded and nothing is written to the
  clipboard; and when no cookie named \<open>ct0\<close> (in the strict script also
  \<open>auth_token\<close>) is without \<open>=\<close>, the errors printed are those of the missing \<open>ct0\<close>.
\<close>

theorem empty_ct0_reported_missing:
  assumes "cookies document_cookie = before @ c # after"
    and "name_value c = (Some (str ''ct0''), Some [])"
    and "\<forall>c'\<in>set after. fst (name_value c') \<noteq> Some (str ''ct0'')"
  shows "credential_bundle v document_cookie = None
         \<and> downloads (extractor v document_cookie clip) = []
         \<and> clipboard_writes (extractor v document_cookie clip) = []
         \<and> ((\<forall>c'\<in>set (cookies document_cookie).
                name_value c' \<noteq> (Some (str ''ct0''), None)
                \<and> (v = Strict \<longrightarrow> name_value c' \<noteq> (Some (str ''auth_token''), None)))
              \<longrightarrow> console_errors (extractor v document_cookie clip) = could_not_find_ct0)"
proof -
  have "js_not (get (tokens l) (str ''ct0''))"
    if "forEach (callback v) (cookies document_cookie) \<lparr>tokens = [], foundTokens = 0\<rparr>
          = (es, Inr l)" for es l
  proof -
    from that assms(1)
    have "forEach (callback v) (before @ c # after) \<lparr>tokens = [], foundTokens = 0\<rparr> = (es, Inr l)"
      by simp
    from this assms(2,3) have "get (tokens l) (str ''ct0'') = Some []"
      by (rule forEach_last) simp
    then show ?thesis by (simp add: js_not_def)
  qed
  then have run: "credential_bundle v document_cookie = None
         \<and> downloads (extractor v document_cookie clip) = []
         \<and> clipboard_writes (extractor v document_cookie clip) = []
         \<and> console_errors (extractor v document_cookie clip) =
             (if throws v document_cookie then console_errors (catch_block TypeError)
              else could_not_find_ct0)"
    by (rule run_without_ct0)
  have "\<not> throws v document_cookie"
    if "\<forall>c'\<in>set (cookies document_cookie).
          name_value c' \<noteq> (Some (str ''ct0''), None)
          \<and> (v = Strict \<longrightarrow> name_value c' \<noteq> (Some (str ''auth_token''), None))"
    using that by (auto simp: throws_iff)
  with run show ?thesis by simp
qed

theorem empty_ct0_reported_missing_witness:
  "cookies (str ''ct0=abc123; ct0=; auth_token=xyz789'')
     = [str ''ct0=abc123''] @ str '' ct0='' # [str '' auth_token=xyz789'']
   \<and> name_value (str '' ct0='') = (Some (str ''ct0''), Some [])
   \<and> name_value (str ''ct0=abc123'') = (Some (str ''ct0''), Some (str ''abc123''))
   \<and> name_value (str '' auth_token=xyz789'') = (Some (str ''auth_token''), Some (str ''xyz789''))
   \<and> downloads (extractor Strict (str ''ct0=abc123; ct0=; auth_token=xyz789'') (Clipboard Fulfilled)) = []
   \<and> console_errors (extractor Strict (str ''ct0=abc123; ct0=; auth_token=xyz789'') (Clipboard Fulfilled))
       = [Could_not_find_ct0, Make_sure_logged_in, Try_refreshing]
   \<and> downloads (extractor Tolerant (str ''ct0=abc123; ct0=; auth_token=xyz789'') (Clipboard Fulfilled)) = []
   \<and> console_errors (extractor Tolerant (str ''ct0=abc123; ct0=; auth_token=xyz789'') (Clipboard Fulfilled))
       = [Could_not_find_ct0, Make_sure_logged_in, Try_refreshing]"
proof -
  have 1: "cookies (str ''ct0=abc123; ct0=; auth_token=xyz789'')
     = [str ''ct0=abc123''] @ str '' ct0='' # [str '' auth_token=xyz789'']"
    by (simp add: run_defs)
  have 2: "name_value (str '' ct0='') = (Some (str ''ct0''), Some [])"
    by (simp add: run_defs)
  have 3: "\<forall>c'\<in>set [str '' auth_token=xyz789'']. fst (name_value c') \<noteq> Some (str ''ct0'')"
    by (simp add: run_defs)
  have 4: "name_value (str ''ct0=abc123'') = (Some (str ''ct0''), Some (str ''abc123''))"
    by (simp add: run_defs)
  have 5: "name_value (str '' auth_token=xyz789'') = (Some (str ''auth_token''), Some (str ''xyz789''))"
    by (simp add: run_defs)
  have 6: "\<forall>c'\<in>set (cookies (str ''ct0=abc123; ct0=; auth_token=xyz789'')).
             name_value c' \<noteq> (Some (str ''ct0''), None)
             \<and> (v = Strict \<longrightarrow> name_value c' \<noteq> (Some (str ''auth_token''), None))" for v
    unfolding 1 by (simp add: 2 4 5)
  from empty_ct0_reported_missing [OF 1 2 3, of Strict "Clipboard Fulfilled"] 6 [of Strict]
  have s: "downloads (extractor Strict (str ''ct0=abc123; ct0=; auth_token=xyz789'') (Clipboard Fulfilled)) = []
     \<and> console_errors (extractor Strict (str ''ct0=abc123; ct0=; auth_token=xyz789'') (Clipboard Fulfilled))
       = [Could_not_find_ct0, Make_sure_logged_in, Try_refreshing]"
    by (simp add: could_not_find_ct0_def)
  from empty_ct0_reported_missing [OF 1 2 3, of Tolerant "Clipboard Fulfilled"] 6 [of Tolerant]
  have t: "downloads (extractor Tolerant (str ''ct0=abc123; ct0=; auth_token=xyz789'') (Clipboard Fulfilled)) = []
     \<and> console_errors (extractor Tolerant (str ''ct0=abc123; ct0=; auth_token=xyz789'') (Clipboard Fulfilled))
       = [Could_not_find_ct0, Make_sure_logged_in, Try_refreshing]"
    by (simp add: could_not_find_ct0_def)
  from 1 2 4 5 s t show ?thesis by blast
qed

text \<open>
  C9 as it is written fails where the loop throws before the check of \<open>ct0\<close> is
  reached: with the cookies \<open>auth_token\<close> and \<open>ct0=\<close> the strict script prints the errors
  of the \<open>catch\<close> block and not that of the missing \<open>ct0\<close>, and so do both scripts with
  the cookies \<open>ct0\<close> and \<open>ct0=\<close>.
\<close>

theorem empty_ct0_reported_missing_counterexample:
  "cookies (str ''auth_token; ct0='') = [str ''auth_token'', str '' ct0='']
   \<and> name_value (str ''auth_token'') = (Some (str ''auth_token''), None)
   \<and> name_value (str '' ct0='') = (Some (str ''ct0''), Some [])
   \<and> console_errors (extractor Strict (str ''auth_token; ct0='') No_clipboard)
       = [Error_extracting TypeError, Troubleshooting, Trouble_1, Trouble_2, Trouble_3, Trouble_4]
   \<and> Could_not_find_ct0 \<notin> set (console_errors (extractor Strict (str ''auth_token; ct0='') No_clipboard))
   \<and> cookies (str ''ct0; ct0='') = [str ''ct0'', str '' ct0='']
   \<and> name_value (str ''ct0'') = (Some (str ''ct0''), None)
   \<and> console_errors (extractor Tolerant (str ''ct0; ct0='') No_clipboard)
       = [Error_extracting TypeError, Troubleshooting, Trouble_1, Trouble_2, Trouble_3, Trouble_4]
   \<and> console_errors (extractor Strict (str ''ct0; ct0='') No_clipboard)
       = [Error_extracting TypeError, Troubleshooting, Trouble_1, Trouble_2, Trouble_3, Trouble_4]"
proof -
  have 1: "cookies (str ''auth_token; ct0='') = [str ''auth_token'', str '' ct0='']"
    by (simp add: run_defs)
  have 2: "name_value (str ''auth_token'') = (Some (str ''auth_token''), None)"
    by (simp add: run_defs)
  have 3: "name_value (str '' ct0='') = (Some (str ''ct0''), Some [])"
    by (simp add: run_defs)
  have 4: "console_errors (extractor Strict (str ''auth_token; ct0='') No_clipboard)
       = [Error_extracting TypeError, Troubleshooting, Trouble_1, Trouble_2, Trouble_3, Trouble_4]"
    unfolding console_errors_extractor by (simp add: run_defs catch_block_def observers)
  have 5: "Could_not_find_ct0 \<notin> set (console_errors (extractor Strict (str ''auth_token; ct0='') No_clipboard))"
    unfolding 4 by simp
  have 6: "cookies (str ''ct0; ct0='') = [str ''ct0'', str '' ct0='']"
    by (simp add: run_defs)
  have 7: "name_value (str ''ct0'') = (Some (str ''ct0''), None)"
    by (simp add: run_defs)
  have 8: "console_errors (extractor Tolerant (str ''ct0; ct0='') No_clipboard)
       = [Error_extracting TypeError, Troubleshooting, Trouble_1, Trouble_2, Trouble_3, Trouble_4]"
    unfolding console_errors_extractor by (simp add: run_defs catch_block_def observers)
  have 9: "console_errors (extractor Strict (str ''ct0; ct0='') No_clipboard)
       = [Error_extracting TypeError, Troubleshooting, Trouble_1, Trouble_2, Trouble_3, Trouble_4]"
    unfolding console_errors_extractor by (simp add: run_defs catch_block_def observers)
  show ?thesis by (intro conjI 1 2 3 4 5 6 7 8 9)
qed

text \<open>
  C10: the bundle has the value of the last cookie named \<open>ct0\<close> (in the strict script
  also \<open>auth_token\<close>) only up to its second \<open>=\<close>: of \<open>ct0=a\<close> and \<open>ct0=b=c\<close> it keeps
  \<open>b\<close>, the last cookie's but not the whole of it, in both scripts.
\<close>

theorem last_value_cut_at_equals:
  "cookies (str ''ct0=a; ct0=b=c'') = [str ''ct0=a'', str '' ct0=b=c'']
   \<and> credential_bundle Tolerant (str ''ct0=a; ct0=b=c'')
       = Some [(str ''ct0'', str ''b''), (str ''csrf_token'', str ''b''),
               (str ''bearer_token'', bearer_token)]
   \<and> cookies (str ''ct0=a; auth_token=x; ct0=b=c; auth_token=y=z'')
       = [str ''ct0=a'', str '' auth_token=x'', str '' ct0=b=c'', str '' auth_token=y=z'']
   \<and> credential_bundle Strict (str ''ct0=a; auth_token=x; ct0=b=c; auth_token=y=z'')
       = Some [(str ''ct0'', str ''b''), (str ''csrf_token'', str ''b''),
               (str ''auth_token'', str ''y''), (str ''bearer_token'', bearer_token)]
   \<and> credential_bundle Tolerant (str ''ct0=a; auth_token=x; ct0=b=c; auth_token=y=z'')
       = Some [(str ''ct0'', str ''b''), (str ''csrf_token'', str ''b''),
               (str ''bearer_token'', bearer_token)]"
  by (simp add: run_defs)

end
